theory Spec2Isabelle
  imports Main
begin

section \<open>Production orders of a base (src/Savegame/Production.cpp)\<close>

text \<open>
  A shallow embedding of the class \<open>Production\<close>. The order's private fields, the base and
  the saved game that \<open>step\<close> mutates through pointers become one record that is passed
  in and returned. C++ \<open>int\<close> and \<open>int64_t\<close> values are mathematical integers: signed
  overflow is undefined behaviour in C++, so the embedding describes the executions
  that stay in range. The one operation whose C++ meaning differs from HOL's on integers,
  division, is written out (\<open>cdiv\<close>).
\<close>

subsection \<open>Integers\<close>

definition cdiv :: "int \<Rightarrow> int \<Rightarrow> int" where
  \<comment> \<open>C++ \<open>a / b\<close> on \<open>int\<close>: the quotient truncated towards zero.\<close>
  "cdiv a b = sgn a * sgn b * (\<bar>a\<bar> div \<bar>b\<bar>)"

definition INT_MAX :: int where
  \<comment> \<open>\<open><climits>\<close>, 32-bit \<open>int\<close>.\<close>
  "INT_MAX = 2147483647"

subsection \<open>Rules (Mod/RuleItem.h, Mod/RuleManufacture.h: read only)\<close>

text \<open>
  Modelled from the spec: the enum \<open>BattleType\<close> is declared outside the sources at hand;
  the code only asks whether an item is \<open>BT_NONE\<close> (a non-combat item).
\<close>

datatype BattleType = BT_NONE | BT_COMBAT

record RuleItem =
  getType :: string
  getBattleType :: BattleType
  getSellCostAdjusted :: int
  \<comment> \<open>Modelled from the spec: the adjusted sell value of one item, fixed during a step.\<close>

text \<open>A \<open>std::map\<close> from item rules to quantities, in iteration order.\<close>

type_synonym item_list = "(RuleItem \<times> int) list"

record RuleManufacture =
  getName :: string
  getManufactureTime :: int
  getManufactureCost :: int
  getRequiredItems :: item_list
  getRequiredCrafts :: "(string \<times> int) list"
  getProducedCraft :: "string option"
  getProducedItems :: item_list
  getRandomProducedItems :: "(int \<times> item_list) list"
  getSpawnedPersonType :: string
  getSpawnedPersonName :: string
  getSpawnedSoldierTemplate :: string
  getPoints :: int

subsection \<open>The order, the base and the saved game\<close>

record Production =
  amount :: int
  infinite :: bool
  timeSpent :: int
  engineers :: int
  sell :: bool
  randomProductionInfo :: "string \<rightharpoonup> int"

definition Production_new :: "int \<Rightarrow> Production" where
  \<comment> \<open>the constructor \<open>Production(rules, amount)\<close>\<close>
  "Production_new a =
     \<lparr>amount = a, infinite = False, timeSpent = 0, engineers = 0, sell = False,
      randomProductionInfo = Map.empty\<rparr>"

definition getAmountProduced :: "RuleManufacture \<Rightarrow> Production \<Rightarrow> int" where
  "getAmountProduced rules p =
     (if getManufactureTime rules > 0 then cdiv (timeSpent p) (getManufactureTime rules)
      else amount p)"

text \<open>
  Modelled from the spec: the class \<open>Craft\<close> is outside the sources at hand. A craft is
  known by its rule (\<open>getRules\<close>, here the rule's type name) and its id; what
  \<open>reuseItem\<close> does to a craft (the refuelling and rearming hook) is kept as the list of
  items the craft was notified of, in order, so that every notification is an observable
  effect.
\<close>

record Craft =
  craftRules :: string
  craftId :: int
  reusedItems :: "RuleItem list"

definition reuseItem :: "RuleItem \<Rightarrow> Craft \<Rightarrow> Craft" where
  "reuseItem i c = c\<lparr>reusedItems := reusedItems c @ [i]\<rparr>"

text \<open>
  Modelled from the spec: the class \<open>Soldier\<close> is outside the sources at hand. A generated
  staff member keeps what \<open>step\<close> decides about it: its soldier rule, the nationality
  selected for it, the template it is loaded from, and its name, which is the custom name
  of the recipe or an automatically generated one.
\<close>

datatype SoldierName = CustomName string | GeneratedName

record Soldier =
  soldierRules :: string
  soldierNationality :: int
  soldierTemplate :: string
  soldierName :: SoldierName

text \<open>
  Modelled from the spec: the class \<open>Transfer\<close> is outside the sources at hand. A transfer
  record carries its arrival delay in hours and a payload: staff counts or one generated
  person. \<open>Transfer_new\<close> is \<open>new Transfer(hours)\<close>, with an empty payload.
\<close>

record Transfer =
  transferHours :: int
  transferScientists :: int
  transferEngineers :: int
  transferSoldier :: "Soldier option"

definition Transfer_new :: "int \<Rightarrow> Transfer" where
  "Transfer_new h =
     \<lparr>transferHours = h, transferScientists = 0, transferEngineers = 0,
      transferSoldier = None\<rparr>"

text \<open>
  Modelled from the spec: the read-only collaborators of \<open>step\<close>, whose code is outside
  the sources at hand: the rule catalogue's soldier rules (\<open>Mod::getSoldier\<close>, \<open>None\<close>
  for a null pointer, otherwise the rule, known by its type name), the saved game's
  nationality selector for a soldier rule at the base, and the language's string table.
\<close>

record Env =
  getSoldier :: "string \<Rightarrow> string option"
  selectSoldierNationalityByLocation :: "string \<Rightarrow> int"
  getString :: "string \<Rightarrow> string"

text \<open>
  Everything \<open>step\<close> reads or writes: the order itself (\<open>this\<close>), the saved game \<open>g\<close>
  (funds, research score, id counters), the base \<open>b\<close> (item stock, craft roster, transfer
  queue, living quarters) and the random number generator's future raw draws. The base
  computes its available and used living quarters from its facilities and staff, outside
  the sources at hand; the two numbers are inputs here.
\<close>

record World =
  production :: Production
  funds :: int
  researchScore :: int
  ids :: "string \<rightharpoonup> int"
  storageItems :: "RuleItem \<Rightarrow> int"
  crafts :: "Craft list"
  transfers :: "Transfer list"
  availableQuarters :: int
  usedQuarters :: int
  rng :: "nat list"

subsection \<open>Collaborators\<close>

text \<open>
  Modelled from the spec: \<open>ItemContainer\<close> (\<open>getItem\<close>, \<open>addItem\<close>, \<open>removeItem\<close>) is
  outside the sources at hand. The stock gives every item a quantity, 0 for an item it
  does not hold. The spec names the three operations only; here a removal that the stock
  does not cover empties the entry instead of leaving a negative quantity, and a removal
  that the stock covers is plain subtraction.
\<close>

definition getItem :: "(RuleItem \<Rightarrow> int) \<Rightarrow> RuleItem \<Rightarrow> int" where
  "getItem c i = c i"

definition addItem :: "(RuleItem \<Rightarrow> int) \<Rightarrow> RuleItem \<Rightarrow> int \<Rightarrow> (RuleItem \<Rightarrow> int)" where
  "addItem c i q = c(i := c i + q)"

definition removeItem :: "(RuleItem \<Rightarrow> int) \<Rightarrow> RuleItem \<Rightarrow> int \<Rightarrow> (RuleItem \<Rightarrow> int)" where
  "removeItem c i q = (if q < c i then c(i := c i - q) else c(i := 0))"

text \<open>
  Modelled from the spec: \<open>SavedGame::getId\<close> hands out the next unused id of a kind of
  object, here from 1 on.
\<close>

definition getId :: "string \<Rightarrow> World \<Rightarrow> int \<times> World" where
  "getId name w =
     (case ids w name of
        Some i \<Rightarrow> (i, w\<lparr>ids := (ids w)(name \<mapsto> i + 1)\<rparr>)
      | None \<Rightarrow> (1, w\<lparr>ids := (ids w)(name \<mapsto> 2)\<rparr>))"

text \<open>
  Modelled from the spec: \<open>RNG::generate(lo, hi)\<close> is a uniform integer generator over
  \<open>[lo, hi]\<close> inclusive. The generator's future raw draws are an input of the model; a
  draw is reduced to the interval. With no draw left, or an empty interval, it answers
  \<open>lo\<close>.
\<close>

definition RNG_generate :: "int \<Rightarrow> int \<Rightarrow> World \<Rightarrow> int \<times> World" where
  "RNG_generate lo hi w =
     (case rng w of
        [] \<Rightarrow> (lo, w)
      | x # xs \<Rightarrow>
          ((if lo \<le> hi then lo + int x mod (hi - lo + 1) else lo), w\<lparr>rng := xs\<rparr>))"

text \<open>
  Modelled from the spec: \<open>Base::getCraftCountForProduction\<close> counts the craft of a rule
  present at the base.
\<close>

definition getCraftCountForProduction :: "World \<Rightarrow> string \<Rightarrow> int" where
  "getCraftCountForProduction w rc = int (length (filter (\<lambda>c. craftRules c = rc) (crafts w)))"

text \<open>
  Modelled from the spec: \<open>RuleManufacture::haveEnoughMoneyForOneMoreUnit\<close>, the funds
  check: current funds are at least the recipe's cost per unit.
\<close>

definition rules_haveEnoughMoneyForOneMoreUnit :: "RuleManufacture \<Rightarrow> int \<Rightarrow> bool" where
  "rules_haveEnoughMoneyForOneMoreUnit rules f = (getManufactureCost rules \<le> f)"

subsection \<open>The affordability checks\<close>

definition haveEnoughMoneyForOneMoreUnit :: "RuleManufacture \<Rightarrow> World \<Rightarrow> bool" where
  "haveEnoughMoneyForOneMoreUnit rules w = rules_haveEnoughMoneyForOneMoreUnit rules (funds w)"

definition haveEnoughLivingSpaceForOneMoreUnit :: "RuleManufacture \<Rightarrow> World \<Rightarrow> bool" where
  "haveEnoughLivingSpaceForOneMoreUnit rules w =
     (if getSpawnedPersonType rules \<noteq> ''''
      then (if availableQuarters w < usedQuarters w then False else True)
      else True)"

fun requiredItemsLoop :: "item_list \<Rightarrow> World \<Rightarrow> bool" where
  "requiredItemsLoop [] w = True"
| "requiredItemsLoop ((i, q) # rest) w =
     (if getItem (storageItems w) i < q then False else requiredItemsLoop rest w)"

fun requiredCraftsLoop :: "(string \<times> int) list \<Rightarrow> World \<Rightarrow> bool" where
  "requiredCraftsLoop [] w = True"
| "requiredCraftsLoop ((rc, n) # rest) w =
     (if getCraftCountForProduction w rc < n then False else requiredCraftsLoop rest w)"

definition haveEnoughMaterialsForOneMoreUnit :: "RuleManufacture \<Rightarrow> World \<Rightarrow> bool" where
  "haveEnoughMaterialsForOneMoreUnit rules w =
     (if \<not> requiredItemsLoop (getRequiredItems rules) w then False
      else requiredCraftsLoop (getRequiredCrafts rules) w)"

subsection \<open>Starting and refunding a unit\<close>

fun removeRequiredItems :: "item_list \<Rightarrow> (RuleItem \<Rightarrow> int) \<Rightarrow> (RuleItem \<Rightarrow> int)" where
  "removeRequiredItems [] c = c"
| "removeRequiredItems ((i, q) # rest) c = removeRequiredItems rest (removeItem c i q)"

text \<open>
  The inner loop of \<open>startItem\<close>: the first craft of the roster with the wanted rule is
  taken out of the roster and deleted; with no such craft the roster stays as it is.
\<close>

fun removeSuitableCraft :: "string \<Rightarrow> Craft list \<Rightarrow> Craft list" where
  "removeSuitableCraft rc [] = []"
| "removeSuitableCraft rc (c # cs) =
     (if craftRules c = rc then cs else c # removeSuitableCraft rc cs)"

fun removeRequiredCrafts :: "(string \<times> int) list \<Rightarrow> Craft list \<Rightarrow> Craft list" where
  "removeRequiredCrafts [] cs = cs"
| "removeRequiredCrafts ((rc, n) # rest) cs = removeRequiredCrafts rest (removeSuitableCraft rc cs)"

definition startItem :: "RuleManufacture \<Rightarrow> World \<Rightarrow> World" where
  "startItem rules w =
     w\<lparr>funds := funds w - getManufactureCost rules,
       storageItems := removeRequiredItems (getRequiredItems rules) (storageItems w),
       crafts := removeRequiredCrafts (getRequiredCrafts rules) (crafts w)\<rparr>"

fun addRequiredItems :: "item_list \<Rightarrow> (RuleItem \<Rightarrow> int) \<Rightarrow> (RuleItem \<Rightarrow> int)" where
  "addRequiredItems [] c = c"
| "addRequiredItems ((i, q) # rest) c = addRequiredItems rest (addItem c i q)"

definition refundItem :: "RuleManufacture \<Rightarrow> World \<Rightarrow> World" where
  "refundItem rules w =
     w\<lparr>funds := funds w + getManufactureCost rules,
       storageItems := addRequiredItems (getRequiredItems rules) (storageItems w)\<rparr>"

subsection \<open>Realizing one unit (the body of the loop of \<open>step\<close>)\<close>

datatype productionProgress_e =
  PROGRESS_NOT_COMPLETE
  | PROGRESS_COMPLETE
  | PROGRESS_NOT_ENOUGH_MONEY
  | PROGRESS_NOT_ENOUGH_MATERIALS
  | PROGRESS_NOT_ENOUGH_LIVING_SPACE

definition tallyAdd :: "string \<Rightarrow> int \<Rightarrow> (string \<rightharpoonup> int) \<Rightarrow> (string \<rightharpoonup> int)" where
  \<comment> \<open>\<open>_randomProductionInfo[type] += qty\<close> on a \<open>std::map\<close>: a missing entry starts at 0\<close>
  "tallyAdd t q m = m(t \<mapsto> (case m t of None \<Rightarrow> 0 | Some v \<Rightarrow> v) + q)"

definition craftsReuseItem :: "RuleItem \<Rightarrow> World \<Rightarrow> World" where
  \<comment> \<open>\<open>for (Craft* c : b->getCrafts()) c->reuseItem(i.first)\<close>\<close>
  "craftsReuseItem i w = w\<lparr>crafts := map (reuseItem i) (crafts w)\<rparr>"

definition Craft_new :: "string \<Rightarrow> int \<Rightarrow> Craft" where
  \<comment> \<open>\<open>new Craft(ruleCraft, b, id)\<close>, after \<open>initFixedWeapons\<close> and \<open>checkup\<close>\<close>
  "Craft_new rc i = \<lparr>craftRules = rc, craftId = i, reusedItems = []\<rparr>"

definition produceCraft :: "string \<Rightarrow> World \<Rightarrow> World" where
  "produceCraft rc w =
     (case getId rc w of (i, w1) \<Rightarrow> w1\<lparr>crafts := crafts w1 @ [Craft_new rc i]\<rparr>)"

text \<open>The loop over \<open>getProducedItems\<close>: each pair is sold, or stocked and tallied.\<close>

fun producedItemsLoop :: "RuleManufacture \<Rightarrow> item_list \<Rightarrow> World \<Rightarrow> World" where
  "producedItemsLoop rules [] w = w"
| "producedItemsLoop rules ((i, q) # rest) w =
     producedItemsLoop rules rest
       (if sell (production w)
        then w\<lparr>funds := funds w + getSellCostAdjusted i * q\<rparr>
        else
          (let w1 = w\<lparr>storageItems := addItem (storageItems w) i q\<rparr>;
               w2 = (if getRandomProducedItems rules \<noteq> []
                     then w1\<lparr>production := (production w1)
                            \<lparr>randomProductionInfo :=
                               tallyAdd (getType i) q (randomProductionInfo (production w1))\<rparr>\<rparr>
                     else w1)
           in if getBattleType i = BT_NONE then craftsReuseItem i w2 else w2))"

text \<open>The items of the item set the roll selected: stocked and tallied, never sold.\<close>

fun randomItemSetLoop :: "item_list \<Rightarrow> World \<Rightarrow> World" where
  "randomItemSetLoop [] w = w"
| "randomItemSetLoop ((i, q) # rest) w =
     randomItemSetLoop rest
       (let w1 = w\<lparr>storageItems := addItem (storageItems w) i q\<rparr>;
            w2 = w1\<lparr>production := (production w1)
                   \<lparr>randomProductionInfo :=
                      tallyAdd (getType i) q (randomProductionInfo (production w1))\<rparr>\<rparr>
        in if getBattleType i = BT_NONE then craftsReuseItem i w2 else w2)"

text \<open>
  The loop over the weighted item sets, with the running total and the roll: the first
  set at which the running total reaches the roll is granted, and the loop is left.
\<close>

fun randomManufactureLoop :: "(int \<times> item_list) list \<Rightarrow> int \<Rightarrow> int \<Rightarrow> World \<Rightarrow> World" where
  "randomManufactureLoop [] runningTotal roll w = w"
| "randomManufactureLoop ((weight, items) # rest) runningTotal roll w =
     (if runningTotal + weight \<ge> roll then randomItemSetLoop items w
      else randomManufactureLoop rest (runningTotal + weight) roll w)"

definition totalWeight :: "(int \<times> item_list) list \<Rightarrow> int" where
  "totalWeight sets = sum_list (map fst sets)"

definition randomManufacture :: "RuleManufacture \<Rightarrow> World \<Rightarrow> World" where
  "randomManufacture rules w =
     (if getRandomProducedItems rules \<noteq> []
      then (case RNG_generate 1 (totalWeight (getRandomProducedItems rules)) w of
              (roll, w1) \<Rightarrow> randomManufactureLoop (getRandomProducedItems rules) 0 roll w1)
      else w)"

definition spawnPerson :: "Env \<Rightarrow> RuleManufacture \<Rightarrow> World \<Rightarrow> World" where
  "spawnPerson env rules w =
     (let spawnedPersonType = getSpawnedPersonType rules in
      if spawnedPersonType \<noteq> '''' then
        if spawnedPersonType = ''STR_SCIENTIST''
        then w\<lparr>transfers := transfers w @ [(Transfer_new 24)\<lparr>transferScientists := 1\<rparr>]\<rparr>
        else if spawnedPersonType = ''STR_ENGINEER''
        then w\<lparr>transfers := transfers w @ [(Transfer_new 24)\<lparr>transferEngineers := 1\<rparr>]\<rparr>
        else
          (case getSoldier env spawnedPersonType of
             None \<Rightarrow> w
           | Some rule \<Rightarrow>
               (let s = \<lparr>soldierRules = rule,
                         soldierNationality = selectSoldierNationalityByLocation env rule,
                         soldierTemplate = getSpawnedSoldierTemplate rules,
                         soldierName =
                           (if getSpawnedPersonName rules \<noteq> ''''
                            then CustomName (getString env (getSpawnedPersonName rules))
                            else GeneratedName)\<rparr>
                in w\<lparr>transfers := transfers w @ [(Transfer_new 24)\<lparr>transferSoldier := Some s\<rparr>]\<rparr>))
      else w)"

definition addResearchScore :: "RuleManufacture \<Rightarrow> World \<Rightarrow> World" where
  "addResearchScore rules w =
     (if getPoints rules \<noteq> 0 then w\<lparr>researchScore := researchScore w + getPoints rules\<rparr> else w)"

definition produceUnit :: "Env \<Rightarrow> RuleManufacture \<Rightarrow> World \<Rightarrow> World" where
  "produceUnit env rules w =
     (let w1 = (case getProducedCraft rules of
                  Some ruleCraft \<Rightarrow> produceCraft ruleCraft w
                | None \<Rightarrow> producedItemsLoop rules (getProducedItems rules) w);
          w2 = randomManufacture rules w1;
          w3 = spawnPerson env rules w2
      in addResearchScore rules w3)"

subsection \<open>The advancement algorithm\<close>

text \<open>
  The \<open>do ... while (count < produced)\<close> loop. It answers \<open>Some\<close> status when a check
  between two units fails (the \<open>return\<close> inside the loop) and \<open>None\<close> when the loop ends.
\<close>

function batchLoop ::
  "Env \<Rightarrow> RuleManufacture \<Rightarrow> int \<Rightarrow> int \<Rightarrow> World \<Rightarrow> productionProgress_e option \<times> World" where
  "batchLoop env rules count produced w =
     (if count + 1 < produced then
        if \<not> haveEnoughMoneyForOneMoreUnit rules (produceUnit env rules w)
        then (Some PROGRESS_NOT_ENOUGH_MONEY, produceUnit env rules w)
        else if \<not> haveEnoughMaterialsForOneMoreUnit rules (produceUnit env rules w)
        then (Some PROGRESS_NOT_ENOUGH_MATERIALS, produceUnit env rules w)
        else batchLoop env rules (count + 1) produced (startItem rules (produceUnit env rules w))
      else (None, produceUnit env rules w))"
  by pat_completeness auto
termination
  by (relation "measure (\<lambda>(env, rules, count, produced, w). nat (produced - count))") auto

definition addTimeSpent :: "World \<Rightarrow> World" where
  \<comment> \<open>\<open>_timeSpent += _engineers\<close>\<close>
  "addTimeSpent w =
     w\<lparr>production := (production w)
         \<lparr>timeSpent := timeSpent (production w) + engineers (production w)\<rparr>\<rparr>"

definition producedCount :: "RuleManufacture \<Rightarrow> int \<Rightarrow> World \<Rightarrow> int" where
  \<comment> \<open>the local \<open>produced\<close> of \<open>step\<close>\<close>
  "producedCount rules done w =
     (if \<not> infinite (production w)
      then min (getAmountProduced rules (production w)) (amount (production w)) - done
      else getAmountProduced rules (production w) - done)"

definition stepTail :: "RuleManufacture \<Rightarrow> int \<Rightarrow> World \<Rightarrow> productionProgress_e \<times> World" where
  \<comment> \<open>\<open>step\<close> from the end of the loop on\<close>
  "stepTail rules done w =
     (if getAmountProduced rules (production w) \<ge> amount (production w)
         \<and> \<not> infinite (production w)
      then (PROGRESS_COMPLETE, w)
      else if done < getAmountProduced rules (production w) then
        if \<not> haveEnoughMoneyForOneMoreUnit rules w then (PROGRESS_NOT_ENOUGH_MONEY, w)
        else if \<not> haveEnoughLivingSpaceForOneMoreUnit rules w
        then (PROGRESS_NOT_ENOUGH_LIVING_SPACE, w)
        else if \<not> haveEnoughMaterialsForOneMoreUnit rules w
        then (PROGRESS_NOT_ENOUGH_MATERIALS, w)
        else (PROGRESS_NOT_COMPLETE, startItem rules w)
      else (PROGRESS_NOT_COMPLETE, w))"

definition step :: "Env \<Rightarrow> RuleManufacture \<Rightarrow> World \<Rightarrow> productionProgress_e \<times> World" where
  "step env rules w =
     (let done = getAmountProduced rules (production w);
          w1 = addTimeSpent w
      in if done < getAmountProduced rules (production w1) then
           (case batchLoop env rules 0 (producedCount rules done w1) w1 of
              (Some status, w2) \<Rightarrow> (status, w2)
            | (None, w2) \<Rightarrow> stepTail rules done w2)
         else stepTail rules done w1)"

subsection \<open>Persistence\<close>

text \<open>
  The YAML node of an order: every key may be missing, and \<open>as<T>(default)\<close> answers the
  default for a key that is missing (\<open>None\<close>; a value that does not convert counts as
  missing).
\<close>

record ProductionNode =
  node_item :: "string option"
  node_assigned :: "int option"
  node_spent :: "int option"
  node_amount :: "int option"
  node_infinite :: "bool option"
  node_sell :: "bool option"
  node_randomProductionInfo :: "(string \<rightharpoonup> int) option"

definition as_default :: "'a option \<Rightarrow> 'a \<Rightarrow> 'a" where
  "as_default v d = (case v of None \<Rightarrow> d | Some x \<Rightarrow> x)"

definition load :: "RuleManufacture \<Rightarrow> ProductionNode \<Rightarrow> Production \<Rightarrow> Production" where
  "load rules node p =
     (let p1 = p\<lparr>engineers := as_default (node_assigned node) (engineers p)\<rparr>;
          p2 = p1\<lparr>timeSpent := as_default (node_spent node) (timeSpent p1)\<rparr>;
          p3 = p2\<lparr>amount := as_default (node_amount node) (amount p2)\<rparr>;
          p4 = p3\<lparr>infinite := as_default (node_infinite node) (infinite p3)\<rparr>;
          p5 = p4\<lparr>sell := as_default (node_sell node) (sell p4)\<rparr>;
          p6 = (if getRandomProducedItems rules \<noteq> []
                then p5\<lparr>randomProductionInfo :=
                          as_default (node_randomProductionInfo node) (randomProductionInfo p5)\<rparr>
                else p5)
      in if amount p6 = INT_MAX
         then p6\<lparr>amount := 999, infinite := True, sell := True\<rparr>
         else p6)"

subsection \<open>Example data\<close>

definition itemAlloys :: RuleItem where
  "itemAlloys = \<lparr>getType = ''STR_ALIEN_ALLOYS'', getBattleType = BT_NONE, getSellCostAdjusted = 6500\<rparr>"

definition itemRifle :: RuleItem where
  "itemRifle = \<lparr>getType = ''STR_LASER_RIFLE'', getBattleType = BT_COMBAT, getSellCostAdjusted = 36900\<rparr>"

definition itemFuel :: RuleItem where
  "itemFuel = \<lparr>getType = ''STR_ELERIUM_115'', getBattleType = BT_NONE, getSellCostAdjusted = 5000\<rparr>"

definition rifleRules :: RuleManufacture where
  "rifleRules =
     \<lparr>getName = ''STR_LASER_RIFLE'', getManufactureTime = 10, getManufactureCost = 100,
      getRequiredItems = [(itemAlloys, 2)], getRequiredCrafts = [],
      getProducedCraft = None, getProducedItems = [(itemRifle, 1)],
      getRandomProducedItems = [], getSpawnedPersonType = '''',
      getSpawnedPersonName = '''', getSpawnedSoldierTemplate = '''', getPoints = 0\<rparr>"

definition rifleOrder :: Production where
  "rifleOrder = (Production_new 3)\<lparr>engineers := 1\<rparr>"

definition plainEnv :: Env where
  "plainEnv =
     \<lparr>getSoldier = (\<lambda>t. if t = ''STR_SOLDIER'' then Some t else None),
      selectSoldierNationalityByLocation = (\<lambda>r. 0),
      getString = (\<lambda>s. s)\<rparr>"

definition rifleWorld :: World where
  "rifleWorld =
     \<lparr>production = rifleOrder, funds = 250, researchScore = 0, ids = Map.empty,
      storageItems = (\<lambda>i. 0)(itemAlloys := 10), crafts = [], transfers = [],
      availableQuarters = 50, usedQuarters = 50, rng = []\<rparr>"

definition engineerRules :: RuleManufacture where
  "engineerRules =
     rifleRules\<lparr>getName := ''STR_TRAIN_ENGINEER'', getProducedItems := [],
       getSpawnedPersonType := ''STR_ENGINEER''\<rparr>"

definition skyranger :: Craft where
  "skyranger = Craft_new ''STR_SKYRANGER'' 1"

definition refitRules :: RuleManufacture where
  "refitRules = rifleRules\<lparr>getName := ''STR_REFIT'', getRequiredCrafts := [(''STR_SKYRANGER'', 1)]\<rparr>"

definition lotteryRules :: RuleManufacture where
  "lotteryRules =
     rifleRules\<lparr>getName := ''STR_SALVAGE'',
       getRandomProducedItems := [(1, [(itemAlloys, 1)]), (3, [(itemFuel, 2)])]\<rparr>"

definition legacyNode :: ProductionNode where
  "legacyNode =
     \<lparr>node_item = Some ''STR_LASER_RIFLE'', node_assigned = Some 5, node_spent = Some 0,
      node_amount = Some 2147483647, node_infinite = Some False, node_sell = None,
      node_randomProductionInfo = None\<rparr>"

definition burstWorld :: World where
  "burstWorld = rifleWorld\<lparr>production := rifleOrder\<lparr>engineers := 25\<rparr>, funds := 50\<rparr>"

definition nearlyDoneWorld :: World where
  "nearlyDoneWorld = rifleWorld\<lparr>production := rifleOrder\<lparr>timeSpent := 9\<rparr>\<rparr>"

definition cappedWorld :: World where
  "cappedWorld = rifleWorld\<lparr>production := rifleOrder\<lparr>amount := 1, engineers := 25\<rparr>\<rparr>"

definition crowdedWorld :: World where
  "crowdedWorld = nearlyDoneWorld\<lparr>storageItems := (\<lambda>i. 0), usedQuarters := 51\<rparr>"

definition crowdedBurstWorld :: World where
  "crowdedBurstWorld =
     rifleWorld\<lparr>production := rifleOrder\<lparr>engineers := 25\<rparr>, storageItems := (\<lambda>i. 0),
       usedQuarters := 51\<rparr>"

subsection \<open>Notions the statements use\<close>

text \<open>
  The units of one batch, realized one after the other with nothing undone: the effects of
  the first unit, then, for each further unit, its start (\<open>startItem\<close>) and its effects.
\<close>

fun moreUnits :: "Env \<Rightarrow> RuleManufacture \<Rightarrow> nat \<Rightarrow> World \<Rightarrow> World" where
  "moreUnits env rules 0 w = w"
| "moreUnits env rules (Suc k) w = moreUnits env rules k (produceUnit env rules (startItem rules w))"

definition realizeUnits :: "Env \<Rightarrow> RuleManufacture \<Rightarrow> nat \<Rightarrow> World \<Rightarrow> World" where
  "realizeUnits env rules n w =
     (case n of 0 \<Rightarrow> w | Suc k \<Rightarrow> moreUnits env rules k (produceUnit env rules w))"

definition tallyOf :: "(string \<rightharpoonup> int) \<Rightarrow> string \<Rightarrow> int" where
  \<comment> \<open>an entry of the random-output tally, 0 for a missing one\<close>
  "tallyOf m t = (case m t of None \<Rightarrow> 0 | Some v \<Rightarrow> v)"

definition qtyOfType :: "string \<Rightarrow> item_list \<Rightarrow> int" where
  \<comment> \<open>the quantity of items of a type that a list of item grants holds\<close>
  "qtyOfType t items = sum_list (map snd (filter (\<lambda>(i, q). getType i = t) items))"

text \<open>
  The item set the roulette selects: the first one at which the running total of the
  weights reaches the roll, and no items when no running total does.
\<close>

fun selectedItemSet :: "(int \<times> item_list) list \<Rightarrow> int \<Rightarrow> int \<Rightarrow> item_list" where
  "selectedItemSet [] runningTotal roll = []"
| "selectedItemSet ((weight, items) # rest) runningTotal roll =
     (if runningTotal + weight \<ge> roll then items
      else selectedItemSet rest (runningTotal + weight) roll)"

definition qtyOfItem :: "RuleItem \<Rightarrow> item_list \<Rightarrow> int" where
  \<comment> \<open>the quantity of one item that a list of item grants holds\<close>
  "qtyOfItem i items = sum_list (map snd (filter (\<lambda>(j, q). j = i) items))"


definition blockedWorld :: World where
  \<comment> \<open>\<open>burstWorld\<close> after the first unit of its batch, where the funds do not cover the next\<close>
  "blockedWorld = produceUnit plainEnv rifleRules (addTimeSpent burstWorld)"

section \<open>Theorems\<close>

lemma cdiv_nonneg: "0 \<le> a \<Longrightarrow> 0 < b \<Longrightarrow> cdiv a b = a div b"
  by (cases "a = 0") (simp_all add: cdiv_def)

lemma cdiv_neg: "a < 0 \<Longrightarrow> 0 < b \<Longrightarrow> cdiv a b = - ((- a) div b)"
  by (simp add: cdiv_def)

lemma cdiv_mono:
  assumes "a \<le> a'" and "0 < b"
  shows "cdiv a b \<le> cdiv a' b"
proof (cases "0 \<le> a")
  case True
  with assms have "cdiv a b = a div b" "cdiv a' b = a' div b"
    by (simp_all add: cdiv_nonneg)
  with assms show ?thesis by (simp add: zdiv_mono1)
next
  case False
  then have na: "a < 0" by simp
  show ?thesis
  proof (cases "0 \<le> a'")
    case True
    have "cdiv a b \<le> 0"
      using na assms(2) by (simp add: cdiv_neg pos_imp_zdiv_nonneg_iff)
    moreover have "0 \<le> cdiv a' b"
      using True assms(2) by (simp add: cdiv_nonneg pos_imp_zdiv_nonneg_iff)
    ultimately show ?thesis by simp
  next
    case False
    then have na': "a' < 0" by simp
    have "(- a') div b \<le> (- a) div b"
      using assms by (simp add: zdiv_mono1)
    then show ?thesis using na na' assms(2) by (simp add: cdiv_neg)
  qed
qed

text \<open>
  C1. When the recipe's time per unit is positive, \<open>getAmountProduced\<close> is the elapsed
  labour divided by the time per unit with C++ integer division (the HOL quotient when
  the elapsed labour is not negative), and it does not decrease when the elapsed labour
  grows; when the time per unit is zero or negative, it is the target amount.
\<close>

theorem getAmountProduced_div:
  "(0 < getManufactureTime rules \<longrightarrow>
      getAmountProduced rules p = cdiv (timeSpent p) (getManufactureTime rules)
      \<and> (0 \<le> timeSpent p \<longrightarrow>
           getAmountProduced rules p = timeSpent p div getManufactureTime rules)
      \<and> (\<forall>t'. timeSpent p \<le> t' \<longrightarrow>
           getAmountProduced rules p \<le> getAmountProduced rules (p\<lparr>timeSpent := t'\<rparr>)))
   \<and> (getManufactureTime rules \<le> 0 \<longrightarrow> getAmountProduced rules p = amount p)"
  by (simp add: getAmountProduced_def cdiv_nonneg cdiv_mono)

theorem getAmountProduced_div_witness:
  "getAmountProduced rifleRules (rifleOrder\<lparr>timeSpent := 25\<rparr>) = 2
   \<and> getAmountProduced rifleRules (rifleOrder\<lparr>timeSpent := 25\<rparr>) = 25 div 10
   \<and> getAmountProduced rifleRules (rifleOrder\<lparr>timeSpent := 25\<rparr>)
       \<le> getAmountProduced rifleRules (rifleOrder\<lparr>timeSpent := 25, timeSpent := 40\<rparr>)
   \<and> getAmountProduced (rifleRules\<lparr>getManufactureTime := 0\<rparr>) (rifleOrder\<lparr>timeSpent := 25\<rparr>) = 3"
  using getAmountProduced_div [of rifleRules "rifleOrder\<lparr>timeSpent := 25\<rparr>"]
    getAmountProduced_div [of "rifleRules\<lparr>getManufactureTime := 0\<rparr>" "rifleOrder\<lparr>timeSpent := 25\<rparr>"]
  by (simp add: rifleRules_def rifleOrder_def Production_new_def getAmountProduced_def cdiv_def)

subsection \<open>Living space\<close>

text \<open>
  C4 (as the code has it). For a recipe that spawns a person, the living-space check fails
  exactly when the base's used living quarters are strictly greater than its available
  living quarters, so a base whose quarters are exactly full passes; for a recipe that
  spawns no person the check always passes.
\<close>

theorem livingSpace_fails_iff_over:
  "(getSpawnedPersonType rules \<noteq> '''' \<longrightarrow>
      (\<not> haveEnoughLivingSpaceForOneMoreUnit rules w) = (availableQuarters w < usedQuarters w))
   \<and> (getSpawnedPersonType rules = '''' \<longrightarrow> haveEnoughLivingSpaceForOneMoreUnit rules w)"
  by (simp add: haveEnoughLivingSpaceForOneMoreUnit_def)

theorem livingSpace_fails_iff_over_witness:
  "\<not> haveEnoughLivingSpaceForOneMoreUnit engineerRules (rifleWorld\<lparr>usedQuarters := 51\<rparr>)
   \<and> haveEnoughLivingSpaceForOneMoreUnit engineerRules (rifleWorld\<lparr>usedQuarters := 49\<rparr>)
   \<and> haveEnoughLivingSpaceForOneMoreUnit rifleRules (rifleWorld\<lparr>usedQuarters := 51\<rparr>)"
  using livingSpace_fails_iff_over [of engineerRules "rifleWorld\<lparr>usedQuarters := 51\<rparr>"]
    livingSpace_fails_iff_over [of engineerRules "rifleWorld\<lparr>usedQuarters := 49\<rparr>"]
    livingSpace_fails_iff_over [of rifleRules "rifleWorld\<lparr>usedQuarters := 51\<rparr>"]
  by (simp add: engineerRules_def rifleRules_def rifleWorld_def)

text \<open>
  The claim as the spec words it (the check fails when used quarters are greater than or
  equal to the available ones) is false where the two are equal: the recipe spawns an
  engineer, 50 of 50 quarters are used, and the check passes.
\<close>

theorem livingSpace_full_base_passes:
  "getSpawnedPersonType engineerRules \<noteq> ''''
   \<and> usedQuarters rifleWorld \<ge> availableQuarters rifleWorld
   \<and> haveEnoughLivingSpaceForOneMoreUnit engineerRules rifleWorld"
  by (simp add: haveEnoughLivingSpaceForOneMoreUnit_def engineerRules_def rifleRules_def
      rifleWorld_def)

subsection \<open>Loading an order\<close>

text \<open>
  C9. The target amount that \<open>load\<close> reads is the record's, or the order's own when the
  record has none. When it is the maximum-integer sentinel, \<open>load\<close> leaves the order with
  target 999, unbounded and liquidating; for any other value the target amount, the
  unbounded flag and the liquidate flag are the record's, or the order's own where the
  record has none.
\<close>

theorem load_sentinel:
  "(as_default (node_amount node) (amount p) = INT_MAX \<longrightarrow>
      amount (load rules node p) = 999
      \<and> infinite (load rules node p) = True
      \<and> sell (load rules node p) = True)
   \<and> (as_default (node_amount node) (amount p) \<noteq> INT_MAX \<longrightarrow>
      amount (load rules node p) = as_default (node_amount node) (amount p)
      \<and> infinite (load rules node p) = as_default (node_infinite node) (infinite p)
      \<and> sell (load rules node p) = as_default (node_sell node) (sell p))"
  by (simp add: load_def Let_def)

theorem load_sentinel_witness:
  "amount (load rifleRules legacyNode (Production_new 0)) = 999
   \<and> infinite (load rifleRules legacyNode (Production_new 0))
   \<and> sell (load rifleRules legacyNode (Production_new 0))
   \<and> amount (load rifleRules (legacyNode\<lparr>node_amount := Some 7\<rparr>) (Production_new 0)) = 7
   \<and> \<not> infinite (load rifleRules (legacyNode\<lparr>node_amount := Some 7\<rparr>) (Production_new 0))
   \<and> \<not> sell (load rifleRules (legacyNode\<lparr>node_amount := Some 7\<rparr>) (Production_new 0))"
  using load_sentinel [of legacyNode "Production_new 0" rifleRules]
    load_sentinel [of "legacyNode\<lparr>node_amount := Some 7\<rparr>" "Production_new 0" rifleRules]
  by (simp add: legacyNode_def Production_new_def as_default_def INT_MAX_def)

subsection \<open>A tick that completes no unit\<close>

text \<open>
  C10. When adding the assigned engineers to the time spent does not increase the number
  of completed units, \<open>step\<close> changes nothing but the time spent, which grows by the
  assigned engineers (funds, item stock, craft roster, transfer queue, research score and
  the random-output tally are as before), and it answers \<open>PROGRESS_COMPLETE\<close> when the
  order is bounded and its completed units are at or above the target amount, and
  \<open>PROGRESS_NOT_COMPLETE\<close> otherwise.
\<close>

theorem step_no_unit_frame:
  assumes "\<not> getAmountProduced rules (production w)
             < getAmountProduced rules
                 ((production w)\<lparr>timeSpent := timeSpent (production w) + engineers (production w)\<rparr>)"
  shows "step env rules w =
           (if \<not> infinite (production w)
               \<and> amount (production w)
                   \<le> getAmountProduced rules
                       ((production w)\<lparr>timeSpent := timeSpent (production w) + engineers (production w)\<rparr>)
            then PROGRESS_COMPLETE else PROGRESS_NOT_COMPLETE,
            w\<lparr>production := (production w)
                \<lparr>timeSpent := timeSpent (production w) + engineers (production w)\<rparr>\<rparr>)"
  using assms by (simp add: step_def stepTail_def addTimeSpent_def Let_def)

theorem step_no_unit_frame_witness:
  "step plainEnv rifleRules rifleWorld
     = (PROGRESS_NOT_COMPLETE, rifleWorld\<lparr>production := rifleOrder\<lparr>timeSpent := 1\<rparr>\<rparr>)
   \<and> step plainEnv (rifleRules\<lparr>getManufactureTime := 0\<rparr>) rifleWorld
     = (PROGRESS_COMPLETE, rifleWorld\<lparr>production := rifleOrder\<lparr>timeSpent := 1\<rparr>\<rparr>)"
  using step_no_unit_frame [of rifleRules rifleWorld plainEnv]
    step_no_unit_frame [of "rifleRules\<lparr>getManufactureTime := 0\<rparr>" rifleWorld plainEnv]
  by (simp add: rifleRules_def rifleWorld_def rifleOrder_def Production_new_def
      getAmountProduced_def cdiv_def)

subsection \<open>Starting and refunding a unit\<close>

lemma removeItem_covered: "q \<le> c i \<Longrightarrow> removeItem c i q = c(i := c i - q)"
  by (auto simp add: removeItem_def)

lemma addItem_upd: "a \<noteq> i \<Longrightarrow> addItem (c(i := v)) a q = (addItem c a q)(i := v)"
  by (rule ext) (simp add: addItem_def)

lemma removeItem_upd: "a \<noteq> i \<Longrightarrow> removeItem (c(i := v)) a q = (removeItem c a q)(i := v)"
  by (rule ext) (simp add: removeItem_def)

lemma addRequiredItems_upd:
  "i \<notin> fst ` set reqs \<Longrightarrow> addRequiredItems reqs (c(i := v)) = (addRequiredItems reqs c)(i := v)"
  by (induction reqs arbitrary: c) (auto simp add: addItem_upd)

lemma removeRequiredItems_upd:
  "i \<notin> fst ` set reqs \<Longrightarrow>
     removeRequiredItems reqs (c(i := v)) = (removeRequiredItems reqs c)(i := v)"
  by (induction reqs arbitrary: c) (auto simp add: removeItem_upd)

lemma add_remove_RequiredItems:
  assumes "distinct (map fst reqs)" and "\<forall>(i, q) \<in> set reqs. q \<le> c i"
  shows "addRequiredItems reqs (removeRequiredItems reqs c) = c"
  using assms
proof (induction reqs arbitrary: c)
  case Nil
  then show ?case by simp
next
  case (Cons a reqs)
  obtain i q where a: "a = (i, q)" by (cases a)
  from Cons.prems a have fresh: "i \<notin> fst ` set reqs" and d: "distinct (map fst reqs)"
    and cov: "q \<le> c i" and rest: "\<forall>(i, q) \<in> set reqs. q \<le> c i"
    by auto
  have "addRequiredItems (a # reqs) (removeRequiredItems (a # reqs) c)
      = addRequiredItems reqs (addItem (removeRequiredItems reqs (c(i := c i - q))) i q)"
    using a cov by (simp add: removeItem_covered)
  also have "\<dots> = addRequiredItems reqs ((removeRequiredItems reqs c)(i := c i))"
    using fresh by (simp add: removeRequiredItems_upd addItem_def)
  also have "\<dots> = (addRequiredItems reqs (removeRequiredItems reqs c))(i := c i)"
    using fresh by (simp add: addRequiredItems_upd)
  also have "\<dots> = c"
    using Cons.IH [OF d rest] by simp
  finally show ?case .
qed

text \<open>
  C7. The required items are a map, so no item is listed twice. When the stock holds every
  required item in at least the required quantity, \<open>startItem\<close> followed by \<open>refundItem\<close>
  gives back the funds and the stock quantity of every item exactly, while the craft
  roster stays as \<open>startItem\<close> left it: without the support craft it consumed.
\<close>

theorem start_refund_roundtrip:
  assumes "distinct (map fst (getRequiredItems rules))"
    and "\<forall>(i, q) \<in> set (getRequiredItems rules). q \<le> getItem (storageItems w) i"
  shows "funds (refundItem rules (startItem rules w)) = funds w
    \<and> (\<forall>i. getItem (storageItems (refundItem rules (startItem rules w))) i
            = getItem (storageItems w) i)
    \<and> crafts (refundItem rules (startItem rules w)) = crafts (startItem rules w)
    \<and> crafts (startItem rules w) = removeRequiredCrafts (getRequiredCrafts rules) (crafts w)"
  using add_remove_RequiredItems [of "getRequiredItems rules" "storageItems w"] assms
  by (simp add: refundItem_def startItem_def getItem_def)

theorem start_refund_roundtrip_witness:
  "funds (refundItem refitRules (startItem refitRules (rifleWorld\<lparr>crafts := [skyranger]\<rparr>))) = 250
   \<and> getItem (storageItems (startItem refitRules (rifleWorld\<lparr>crafts := [skyranger]\<rparr>))) itemAlloys = 8
   \<and> getItem (storageItems (refundItem refitRules (startItem refitRules (rifleWorld\<lparr>crafts := [skyranger]\<rparr>)))) itemAlloys = 10
   \<and> crafts (refundItem refitRules (startItem refitRules (rifleWorld\<lparr>crafts := [skyranger]\<rparr>))) = []"
  using start_refund_roundtrip [of refitRules "rifleWorld\<lparr>crafts := [skyranger]\<rparr>"]
  by (simp add: refitRules_def rifleRules_def rifleWorld_def getItem_def skyranger_def
      Craft_new_def startItem_def removeItem_def itemAlloys_def)

subsection \<open>The weighted-random outputs\<close>


text \<open>
  The roll that the branch draws lies in \<open>[1, W]\<close> whenever the total weight \<open>W\<close> is
  at least 1, and the branch is the loop run with that roll.
\<close>

lemma randomManufacture_draw:
  assumes "getRandomProducedItems rules \<noteq> []"
    and "1 \<le> totalWeight (getRandomProducedItems rules)"
  shows "1 \<le> fst (RNG_generate 1 (totalWeight (getRandomProducedItems rules)) w)
    \<and> fst (RNG_generate 1 (totalWeight (getRandomProducedItems rules)) w)
        \<le> totalWeight (getRandomProducedItems rules)
    \<and> randomManufacture rules w
        = randomManufactureLoop (getRandomProducedItems rules) 0
            (fst (RNG_generate 1 (totalWeight (getRandomProducedItems rules)) w))
            (snd (RNG_generate 1 (totalWeight (getRandomProducedItems rules)) w))"
proof -
  let ?W = "totalWeight (getRandomProducedItems rules)"
  have m: "1 \<le> 1 + int x mod ?W \<and> 1 + int x mod ?W \<le> ?W" for x
  proof -
    have "0 \<le> int x mod ?W" and "int x mod ?W < ?W"
      using assms(2) by simp_all
    then show ?thesis by linarith
  qed
  have "1 \<le> fst (RNG_generate 1 ?W w) \<and> fst (RNG_generate 1 ?W w) \<le> ?W"
  proof (cases "rng w")
    case Nil
    then show ?thesis using assms(2) by (simp add: RNG_generate_def)
  next
    case (Cons x xs)
    then show ?thesis using assms(2) m [of x] by (simp add: RNG_generate_def)
  qed
  then show ?thesis
    using assms(1) by (simp add: randomManufacture_def split: prod.splits)
qed

subsection \<open>What the parts of \<open>step\<close> leave alone\<close>

lemma craftsReuseItem_production [simp]: "production (craftsReuseItem i w) = production w"
  by (simp add: craftsReuseItem_def)

lemma producedItemsLoop_order:
  "amount (production (producedItemsLoop rules items w)) = amount (production w)
   \<and> infinite (production (producedItemsLoop rules items w)) = infinite (production w)
   \<and> timeSpent (production (producedItemsLoop rules items w)) = timeSpent (production w)
   \<and> engineers (production (producedItemsLoop rules items w)) = engineers (production w)
   \<and> sell (production (producedItemsLoop rules items w)) = sell (production w)"
  by (induction rules items w rule: producedItemsLoop.induct) (simp_all add: Let_def)

lemma randomItemSetLoop_order:
  "amount (production (randomItemSetLoop items w)) = amount (production w)
   \<and> infinite (production (randomItemSetLoop items w)) = infinite (production w)
   \<and> timeSpent (production (randomItemSetLoop items w)) = timeSpent (production w)
   \<and> engineers (production (randomItemSetLoop items w)) = engineers (production w)
   \<and> sell (production (randomItemSetLoop items w)) = sell (production w)"
  by (induction items w rule: randomItemSetLoop.induct) (simp_all add: Let_def)

lemma randomManufactureLoop_selected:
  "randomManufactureLoop sets runningTotal roll w
     = randomItemSetLoop (selectedItemSet sets runningTotal roll) w"
  by (induction sets runningTotal roll w rule: randomManufactureLoop.induct) simp_all

lemma RNG_generate_production [simp]: "production (snd (RNG_generate lo hi w)) = production w"
  by (simp add: RNG_generate_def split: list.splits)

lemma randomManufacture_eq:
  "randomManufacture rules w =
     (if getRandomProducedItems rules \<noteq> []
      then randomItemSetLoop
             (selectedItemSet (getRandomProducedItems rules) 0
                (fst (RNG_generate 1 (totalWeight (getRandomProducedItems rules)) w)))
             (snd (RNG_generate 1 (totalWeight (getRandomProducedItems rules)) w))
      else w)"
  by (simp add: randomManufacture_def randomManufactureLoop_selected split: prod.splits)

lemma produceCraft_production [simp]: "production (produceCraft rc w) = production w"
  by (simp add: produceCraft_def getId_def split: option.splits)

lemma spawnPerson_production [simp]: "production (spawnPerson env rules w) = production w"
  by (simp add: spawnPerson_def Let_def split: option.splits)

lemma addResearchScore_production [simp]: "production (addResearchScore rules w) = production w"
  by (simp add: addResearchScore_def)

lemma startItem_production [simp]: "production (startItem rules w) = production w"
  by (simp add: startItem_def)

lemma produceUnit_order:
  "amount (production (produceUnit env rules w)) = amount (production w)
   \<and> infinite (production (produceUnit env rules w)) = infinite (production w)
   \<and> timeSpent (production (produceUnit env rules w)) = timeSpent (production w)
   \<and> engineers (production (produceUnit env rules w)) = engineers (production w)
   \<and> sell (production (produceUnit env rules w)) = sell (production w)"
  by (simp add: produceUnit_def Let_def randomManufacture_eq randomItemSetLoop_order
      producedItemsLoop_order split: option.splits)

lemma moreUnits_order:
  "amount (production (moreUnits env rules k w)) = amount (production w)
   \<and> infinite (production (moreUnits env rules k w)) = infinite (production w)
   \<and> timeSpent (production (moreUnits env rules k w)) = timeSpent (production w)
   \<and> engineers (production (moreUnits env rules k w)) = engineers (production w)
   \<and> sell (production (moreUnits env rules k w)) = sell (production w)"
  by (induction k arbitrary: w) (simp_all add: produceUnit_order)

lemma realizeUnits_order:
  "amount (production (realizeUnits env rules n w)) = amount (production w)
   \<and> infinite (production (realizeUnits env rules n w)) = infinite (production w)
   \<and> timeSpent (production (realizeUnits env rules n w)) = timeSpent (production w)
   \<and> engineers (production (realizeUnits env rules n w)) = engineers (production w)
   \<and> sell (production (realizeUnits env rules n w)) = sell (production w)"
  by (cases n) (simp_all add: realizeUnits_def moreUnits_order produceUnit_order)

lemma getAmountProduced_cong:
  "amount p' = amount p \<Longrightarrow> timeSpent p' = timeSpent p \<Longrightarrow>
     getAmountProduced rules p' = getAmountProduced rules p"
  by (simp add: getAmountProduced_def)

subsection \<open>The loop realizes units one after the other\<close>

lemma batchLoop_realized:
  "batchLoop env rules count produced w = (r, w') \<Longrightarrow>
     \<exists>k. w' = moreUnits env rules k (produceUnit env rules w)
       \<and> count + 1 + int k \<le> max (count + 1) produced
       \<and> (r = None \<longrightarrow> count + 1 + int k = max (count + 1) produced)
       \<and> (\<forall>status. r = Some status \<longrightarrow>
            count + 1 + int k < produced
            \<and> status = (if \<not> haveEnoughMoneyForOneMoreUnit rules w'
                        then PROGRESS_NOT_ENOUGH_MONEY else PROGRESS_NOT_ENOUGH_MATERIALS)
            \<and> (haveEnoughMoneyForOneMoreUnit rules w' \<longrightarrow>
                 \<not> haveEnoughMaterialsForOneMoreUnit rules w'))"
proof (induction env rules count produced w arbitrary: r w' rule: batchLoop.induct)
  case (1 env rules count produced w)
  let ?u = "produceUnit env rules w"
  note eq = "1.prems" [unfolded batchLoop.simps [of env rules count produced w]]
  show ?case
  proof (cases "count + 1 < produced")
    case False
    with eq have "r = None" "w' = ?u" by simp_all
    moreover from False have "max (count + 1) produced = count + 1" by simp
    ultimately show ?thesis by (intro exI [of _ 0]) simp
  next
    case more: True
    show ?thesis
    proof (cases "haveEnoughMoneyForOneMoreUnit rules ?u")
      case False
      with eq more have "r = Some PROGRESS_NOT_ENOUGH_MONEY" "w' = ?u" by simp_all
      with False more show ?thesis by (intro exI [of _ 0]) simp
    next
      case money: True
      show ?thesis
      proof (cases "haveEnoughMaterialsForOneMoreUnit rules ?u")
        case False
        with eq more money have "r = Some PROGRESS_NOT_ENOUGH_MATERIALS" "w' = ?u" by simp_all
        with False money more show ?thesis by (intro exI [of _ 0]) simp
      next
        case True
        with eq more money
        have rec: "batchLoop env rules (count + 1) produced (startItem rules ?u) = (r, w')"
          by simp
        from more have m1: "max (count + 1) produced = produced"
          and m2: "max (count + 1 + 1) produced = produced" by simp_all
        from "1.IH" [OF more _ _ rec] money True
        obtain k where k: "w' = moreUnits env rules k (produceUnit env rules (startItem rules ?u))"
          and le: "count + 1 + 1 + int k \<le> max (count + 1 + 1) produced"
          and none: "r = None \<longrightarrow> count + 1 + 1 + int k = max (count + 1 + 1) produced"
          and some: "\<forall>status. r = Some status \<longrightarrow>
            count + 1 + 1 + int k < produced
            \<and> status = (if \<not> haveEnoughMoneyForOneMoreUnit rules w'
                        then PROGRESS_NOT_ENOUGH_MONEY else PROGRESS_NOT_ENOUGH_MATERIALS)
            \<and> (haveEnoughMoneyForOneMoreUnit rules w' \<longrightarrow>
                 \<not> haveEnoughMaterialsForOneMoreUnit rules w')"
          by blast
        have a: "w' = moreUnits env rules (Suc k) ?u" using k by simp
        have b: "count + 1 + int (Suc k) = count + 1 + 1 + int k" by simp
        show ?thesis
          using a le none some unfolding m1 m2 b [symmetric] by (intro exI [of _ "Suc k"]) blast
      qed
    qed
  qed
qed

lemma addTimeSpent_fields:
  "amount (production (addTimeSpent w)) = amount (production w)
   \<and> infinite (production (addTimeSpent w)) = infinite (production w)
   \<and> timeSpent (production (addTimeSpent w)) = timeSpent (production w) + engineers (production w)
   \<and> engineers (production (addTimeSpent w)) = engineers (production w)"
  by (simp add: addTimeSpent_def)

lemma step_unit_completed:
  "getAmountProduced rules (production w) < getAmountProduced rules (production (addTimeSpent w)) \<Longrightarrow>
   batchLoop env rules 0
     (producedCount rules (getAmountProduced rules (production w)) (addTimeSpent w))
     (addTimeSpent w) = (r, w') \<Longrightarrow>
   step env rules w =
     (case r of Some status \<Rightarrow> (status, w')
      | None \<Rightarrow> stepTail rules (getAmountProduced rules (production w)) w')"
  by (simp add: step_def Let_def)

subsection \<open>A batch that is blocked between two units\<close>

lemma batchLoop_blocks:
  assumes "count + 1 + int k < produced"
    and "\<forall>j<k. haveEnoughMoneyForOneMoreUnit rules (moreUnits env rules j (produceUnit env rules w))
              \<and> haveEnoughMaterialsForOneMoreUnit rules (moreUnits env rules j (produceUnit env rules w))"
    and "\<not> (haveEnoughMoneyForOneMoreUnit rules (moreUnits env rules k (produceUnit env rules w))
            \<and> haveEnoughMaterialsForOneMoreUnit rules (moreUnits env rules k (produceUnit env rules w)))"
  shows "batchLoop env rules count produced w
           = (Some (if \<not> haveEnoughMoneyForOneMoreUnit rules (moreUnits env rules k (produceUnit env rules w))
                    then PROGRESS_NOT_ENOUGH_MONEY else PROGRESS_NOT_ENOUGH_MATERIALS),
              moreUnits env rules k (produceUnit env rules w))"
  using assms
proof (induction k arbitrary: count w)
  case 0
  then show ?case by (subst batchLoop.simps) auto
next
  case (Suc k)
  let ?u = "produceUnit env rules w"
  from Suc.prems(1) have more: "count + 1 < produced" by simp
  from Suc.prems(2) have ok: "haveEnoughMoneyForOneMoreUnit rules ?u"
    "haveEnoughMaterialsForOneMoreUnit rules ?u"
    by (auto dest: spec [of _ 0])
  have rec: "batchLoop env rules count produced w
               = batchLoop env rules (count + 1) produced (startItem rules ?u)"
    using more ok by (subst batchLoop.simps) simp
  have a: "count + 1 + 1 + int k < produced" using Suc.prems(1) by simp
  have b: "\<forall>j<k. haveEnoughMoneyForOneMoreUnit rules
                    (moreUnits env rules j (produceUnit env rules (startItem rules ?u)))
              \<and> haveEnoughMaterialsForOneMoreUnit rules
                    (moreUnits env rules j (produceUnit env rules (startItem rules ?u)))"
  proof (intro allI impI)
    fix j assume "j < k"
    then have "Suc j < Suc k" by simp
    with Suc.prems(2) show "haveEnoughMoneyForOneMoreUnit rules
                    (moreUnits env rules j (produceUnit env rules (startItem rules ?u)))
              \<and> haveEnoughMaterialsForOneMoreUnit rules
                    (moreUnits env rules j (produceUnit env rules (startItem rules ?u)))"
      by (auto dest!: spec [of _ "Suc j"])
  qed
  have c: "\<not> (haveEnoughMoneyForOneMoreUnit rules
                 (moreUnits env rules k (produceUnit env rules (startItem rules ?u)))
            \<and> haveEnoughMaterialsForOneMoreUnit rules
                 (moreUnits env rules k (produceUnit env rules (startItem rules ?u))))"
    using Suc.prems(3) by simp
  show ?case
    unfolding rec using Suc.IH [OF a b c] by simp
qed

lemma step_shape:
  "\<exists>m. snd (step env rules w) = realizeUnits env rules m (addTimeSpent w)
     \<or> snd (step env rules w) = startItem rules (realizeUnits env rules m (addTimeSpent w))"
proof (cases "getAmountProduced rules (production w)
                < getAmountProduced rules (production (addTimeSpent w))")
  case False
  then have "snd (step env rules w) = addTimeSpent w"
    by (simp add: step_def Let_def stepTail_def)
  then show ?thesis by (intro exI [of _ 0]) (simp add: realizeUnits_def)
next
  case unit: True
  let ?done = "getAmountProduced rules (production w)"
  let ?w1 = "addTimeSpent w"
  let ?produced = "producedCount rules ?done ?w1"
  obtain r w' where loop: "batchLoop env rules 0 ?produced ?w1 = (r, w')"
    by (cases "batchLoop env rules 0 ?produced ?w1")
  from batchLoop_realized [OF loop]
  obtain k where k: "w' = moreUnits env rules k (produceUnit env rules ?w1)"
    by blast
  have r: "w' = realizeUnits env rules (Suc k) ?w1"
    using k by (simp add: realizeUnits_def)
  have "snd (step env rules w) = w' \<or> snd (step env rules w) = startItem rules w'"
    using step_unit_completed [OF unit loop]
    by (cases r) (auto simp add: stepTail_def)
  with r show ?thesis by (intro exI [of _ "Suc k"]) simp
qed

lemma step_order:
  "timeSpent (production (snd (step env rules w)))
     = timeSpent (production w) + engineers (production w)
   \<and> amount (production (snd (step env rules w))) = amount (production w)
   \<and> infinite (production (snd (step env rules w))) = infinite (production w)
   \<and> engineers (production (snd (step env rules w))) = engineers (production w)
   \<and> sell (production (snd (step env rules w))) = sell (production w)"
proof -
  from step_shape [of env rules w] obtain m where
    "snd (step env rules w) = realizeUnits env rules m (addTimeSpent w)
     \<or> snd (step env rules w) = startItem rules (realizeUnits env rules m (addTimeSpent w))"
    by blast
  then show ?thesis
    by (auto simp add: realizeUnits_order addTimeSpent_def)
qed

text \<open>
  C2. A unit completes, and between two units of the batch a check fails: after \<open>n\<close>
  realized units (at least one, fewer than the batch) the funds or the materials do not
  cover the next unit, and after every smaller number of units both did. Then \<open>step\<close>
  answers the status of the failed check, \<open>PROGRESS_NOT_ENOUGH_MONEY\<close> when the funds do
  not cover the unit and \<open>PROGRESS_NOT_ENOUGH_MATERIALS\<close> otherwise, and hands back the
  state of that moment: the \<open>n\<close> units realized one after the other with nothing
  undone, and the time spent as advanced at the start of the call. A later call of
  \<open>step\<close> on a state with that order (whatever was done to funds and stock meanwhile)
  starts from the kept values: the units it counts as completed before the tick are those
  of the kept time spent, its tally starts as the blocked call left it, the time spent
  advances once more by the assigned engineers, and its own units are realized on top of
  the state it is given.
\<close>

theorem step_blocked_mid_batch:
  assumes unit: "getAmountProduced rules (production w)
                   < getAmountProduced rules (production (addTimeSpent w))"
    and n: "0 < n"
      "int n < producedCount rules (getAmountProduced rules (production w)) (addTimeSpent w)"
    and passed: "\<forall>m. 0 < m \<and> m < n \<longrightarrow>
        haveEnoughMoneyForOneMoreUnit rules (realizeUnits env rules m (addTimeSpent w))
        \<and> haveEnoughMaterialsForOneMoreUnit rules (realizeUnits env rules m (addTimeSpent w))"
    and failed: "\<not> (haveEnoughMoneyForOneMoreUnit rules (realizeUnits env rules n (addTimeSpent w))
        \<and> haveEnoughMaterialsForOneMoreUnit rules (realizeUnits env rules n (addTimeSpent w)))"
  shows "step env rules w =
           (if \<not> haveEnoughMoneyForOneMoreUnit rules (realizeUnits env rules n (addTimeSpent w))
            then PROGRESS_NOT_ENOUGH_MONEY else PROGRESS_NOT_ENOUGH_MATERIALS,
            realizeUnits env rules n (addTimeSpent w))
    \<and> timeSpent (production (realizeUnits env rules n (addTimeSpent w)))
        = timeSpent (production w) + engineers (production w)
    \<and> (\<forall>w2. production w2 = production (realizeUnits env rules n (addTimeSpent w)) \<longrightarrow>
          getAmountProduced rules (production w2)
            = getAmountProduced rules (production (addTimeSpent w))
          \<and> randomProductionInfo (production (addTimeSpent w2))
            = randomProductionInfo (production (realizeUnits env rules n (addTimeSpent w)))
          \<and> timeSpent (production (snd (step env rules w2)))
            = timeSpent (production w) + 2 * engineers (production w)
          \<and> (\<exists>m. snd (step env rules w2) = realizeUnits env rules m (addTimeSpent w2)
                \<or> snd (step env rules w2)
                    = startItem rules (realizeUnits env rules m (addTimeSpent w2))))"
proof -
  let ?w1 = "addTimeSpent w"
  let ?R = "realizeUnits env rules n ?w1"
  from n(1) obtain k where k: "n = Suc k" by (cases n) simp_all
  have R: "?R = moreUnits env rules k (produceUnit env rules ?w1)"
    by (simp add: k realizeUnits_def)
  have lt: "0 + 1 + int k
              < producedCount rules (getAmountProduced rules (production w)) ?w1"
    using n(2) k by simp
  have ok: "\<forall>j<k. haveEnoughMoneyForOneMoreUnit rules (moreUnits env rules j (produceUnit env rules ?w1))
              \<and> haveEnoughMaterialsForOneMoreUnit rules (moreUnits env rules j (produceUnit env rules ?w1))"
  proof (intro allI impI)
    fix j assume "j < k"
    then have "0 < Suc j \<and> Suc j < n" using k by simp
    with passed have "haveEnoughMoneyForOneMoreUnit rules (realizeUnits env rules (Suc j) ?w1)
        \<and> haveEnoughMaterialsForOneMoreUnit rules (realizeUnits env rules (Suc j) ?w1)"
      by blast
    then show "haveEnoughMoneyForOneMoreUnit rules (moreUnits env rules j (produceUnit env rules ?w1))
              \<and> haveEnoughMaterialsForOneMoreUnit rules (moreUnits env rules j (produceUnit env rules ?w1))"
      by (simp add: realizeUnits_def)
  qed
  have bad: "\<not> (haveEnoughMoneyForOneMoreUnit rules (moreUnits env rules k (produceUnit env rules ?w1))
            \<and> haveEnoughMaterialsForOneMoreUnit rules (moreUnits env rules k (produceUnit env rules ?w1)))"
    using failed unfolding R .
  note loop = batchLoop_blocks [OF lt ok bad]
  have s: "step env rules w =
           (if \<not> haveEnoughMoneyForOneMoreUnit rules ?R
            then PROGRESS_NOT_ENOUGH_MONEY else PROGRESS_NOT_ENOUGH_MATERIALS, ?R)"
    using step_unit_completed [OF unit loop] unfolding R by simp
  have t: "timeSpent (production ?R) = timeSpent (production w) + engineers (production w)"
    by (simp add: realizeUnits_order addTimeSpent_fields)
  have later: "getAmountProduced rules (production w2)
            = getAmountProduced rules (production ?w1)
          \<and> randomProductionInfo (production (addTimeSpent w2))
            = randomProductionInfo (production ?R)
          \<and> timeSpent (production (snd (step env rules w2)))
            = timeSpent (production w) + 2 * engineers (production w)
          \<and> (\<exists>m. snd (step env rules w2) = realizeUnits env rules m (addTimeSpent w2)
                \<or> snd (step env rules w2)
                    = startItem rules (realizeUnits env rules m (addTimeSpent w2)))"
    if p: "production w2 = production ?R" for w2
  proof (intro conjI)
    show "getAmountProduced rules (production w2) = getAmountProduced rules (production ?w1)"
      unfolding p by (rule getAmountProduced_cong) (simp_all add: realizeUnits_order)
    show "randomProductionInfo (production (addTimeSpent w2))
            = randomProductionInfo (production ?R)"
      by (simp add: addTimeSpent_def p)
    show "timeSpent (production (snd (step env rules w2)))
            = timeSpent (production w) + 2 * engineers (production w)"
      by (simp add: step_order p realizeUnits_order addTimeSpent_fields)
    show "\<exists>m. snd (step env rules w2) = realizeUnits env rules m (addTimeSpent w2)
                \<or> snd (step env rules w2)
                    = startItem rules (realizeUnits env rules m (addTimeSpent w2))"
      by (rule step_shape)
  qed
  from s t later show ?thesis by blast
qed

subsection \<open>The order of the affordability checks\<close>

text \<open>
  C3. Between two units of a batch \<open>step\<close> checks money, then materials, and never living
  space: a failed check answers \<open>PROGRESS_NOT_ENOUGH_MONEY\<close> when money is short and
  \<open>PROGRESS_NOT_ENOUGH_MATERIALS\<close> only when money suffices. After the batch, when the
  order is not complete, it checks money, then living space, then materials, and the first
  check that fails gives the status; when none fails the status is
  \<open>PROGRESS_NOT_COMPLETE\<close>.
\<close>

theorem affordability_check_order:
  assumes unit: "getAmountProduced rules (production w)
                   < getAmountProduced rules (production (addTimeSpent w))"
    and loop: "batchLoop env rules 0
                 (producedCount rules (getAmountProduced rules (production w)) (addTimeSpent w))
                 (addTimeSpent w) = (r, w')"
  shows "(\<forall>status. r = Some status \<longrightarrow>
            fst (step env rules w) = status
            \<and> status = (if \<not> haveEnoughMoneyForOneMoreUnit rules w'
                        then PROGRESS_NOT_ENOUGH_MONEY else PROGRESS_NOT_ENOUGH_MATERIALS)
            \<and> (haveEnoughMoneyForOneMoreUnit rules w' \<longrightarrow>
                 \<not> haveEnoughMaterialsForOneMoreUnit rules w'))
    \<and> (r = None
         \<and> \<not> (amount (production w') \<le> getAmountProduced rules (production w')
               \<and> \<not> infinite (production w')) \<longrightarrow>
          fst (step env rules w) =
            (if \<not> haveEnoughMoneyForOneMoreUnit rules w' then PROGRESS_NOT_ENOUGH_MONEY
             else if \<not> haveEnoughLivingSpaceForOneMoreUnit rules w'
             then PROGRESS_NOT_ENOUGH_LIVING_SPACE
             else if \<not> haveEnoughMaterialsForOneMoreUnit rules w'
             then PROGRESS_NOT_ENOUGH_MATERIALS
             else PROGRESS_NOT_COMPLETE))"
proof (intro conjI allI impI)
  fix status assume s: "r = Some status"
  with step_unit_completed [OF unit loop] show "fst (step env rules w) = status" by simp
  from batchLoop_realized [OF loop] s
  show "status = (if \<not> haveEnoughMoneyForOneMoreUnit rules w'
                  then PROGRESS_NOT_ENOUGH_MONEY else PROGRESS_NOT_ENOUGH_MATERIALS)"
    by blast
  assume "haveEnoughMoneyForOneMoreUnit rules w'"
  with batchLoop_realized [OF loop] s
  show "\<not> haveEnoughMaterialsForOneMoreUnit rules w'" by blast
next
  assume a: "r = None
         \<and> \<not> (amount (production w') \<le> getAmountProduced rules (production w')
               \<and> \<not> infinite (production w'))"
  from batchLoop_realized [OF loop]
  obtain k where k: "w' = moreUnits env rules k (produceUnit env rules (addTimeSpent w))"
    by blast
  have g: "getAmountProduced rules (production w')
             = getAmountProduced rules (production (addTimeSpent w))"
    unfolding k by (rule getAmountProduced_cong) (simp_all add: moreUnits_order produceUnit_order)
  from a step_unit_completed [OF unit loop]
  have "step env rules w = stepTail rules (getAmountProduced rules (production w)) w'" by simp
  then show "fst (step env rules w) =
            (if \<not> haveEnoughMoneyForOneMoreUnit rules w' then PROGRESS_NOT_ENOUGH_MONEY
             else if \<not> haveEnoughLivingSpaceForOneMoreUnit rules w'
             then PROGRESS_NOT_ENOUGH_LIVING_SPACE
             else if \<not> haveEnoughMaterialsForOneMoreUnit rules w'
             then PROGRESS_NOT_ENOUGH_MATERIALS
             else PROGRESS_NOT_COMPLETE)"
    using a unit g by (simp add: stepTail_def)
qed

subsection \<open>The target amount caps the batch\<close>

text \<open>
  C5 (as the code has it). For a bounded order that is not yet complete when \<open>step\<close> is
  called, the units that the call realizes, added to the units completed before, never
  exceed the target amount, even when the time spent implies more. The count that
  \<open>getAmountProduced\<close> reports is not capped.
\<close>

theorem step_batch_capped:
  assumes bounded: "\<not> infinite (production w)"
    and open_order: "getAmountProduced rules (production w) < amount (production w)"
    and unit: "getAmountProduced rules (production w)
                 < getAmountProduced rules (production (addTimeSpent w))"
  shows "\<exists>n. 0 < n
           \<and> getAmountProduced rules (production w) + int n \<le> amount (production w)
           \<and> (snd (step env rules w) = realizeUnits env rules n (addTimeSpent w)
              \<or> snd (step env rules w) = startItem rules (realizeUnits env rules n (addTimeSpent w)))"
proof -
  let ?done = "getAmountProduced rules (production w)"
  let ?w1 = "addTimeSpent w"
  let ?produced = "producedCount rules ?done ?w1"
  obtain r w' where loop: "batchLoop env rules 0 ?produced ?w1 = (r, w')"
    by (cases "batchLoop env rules 0 ?produced ?w1")
  from batchLoop_realized [OF loop]
  obtain k where k: "w' = moreUnits env rules k (produceUnit env rules ?w1)"
    and le: "0 + 1 + int k \<le> max (0 + 1) ?produced"
    by blast
  have p: "?produced = min (getAmountProduced rules (production ?w1)) (amount (production w)) - ?done"
    using bounded by (simp add: producedCount_def addTimeSpent_fields)
  have "1 \<le> ?produced" using p open_order unit by simp
  with le have le': "1 + int k \<le> ?produced" by simp
  have cap: "?done + int (Suc k) \<le> amount (production w)"
    using le' p by simp
  have r: "w' = realizeUnits env rules (Suc k) ?w1"
    using k by (simp add: realizeUnits_def)
  have "snd (step env rules w) = w' \<or> snd (step env rules w) = startItem rules w'"
    using step_unit_completed [OF unit loop]
    by (cases r) (auto simp add: stepTail_def)
  with r cap show ?thesis by (intro exI [of _ "Suc k"]) simp
qed

subsection \<open>Evaluating the examples\<close>

lemmas world_eval =
  rifleWorld_def burstWorld_def nearlyDoneWorld_def rifleOrder_def Production_new_def
  rifleRules_def engineerRules_def plainEnv_def itemAlloys_def itemRifle_def itemFuel_def
  addTimeSpent_def producedCount_def getAmountProduced_def cdiv_def
  produceUnit_def produceCraft_def randomManufacture_def spawnPerson_def addResearchScore_def
  craftsReuseItem_def Transfer_new_def
  haveEnoughMoneyForOneMoreUnit_def rules_haveEnoughMoneyForOneMoreUnit_def
  haveEnoughLivingSpaceForOneMoreUnit_def haveEnoughMaterialsForOneMoreUnit_def
  getItem_def addItem_def removeItem_def getCraftCountForProduction_def startItem_def
  Let_def

lemma blocked_later_step:
  "step plainEnv rifleRules (blockedWorld\<lparr>funds := 1000\<rparr>)
     = (PROGRESS_COMPLETE,
        produceUnit plainEnv rifleRules (addTimeSpent (blockedWorld\<lparr>funds := 1000\<rparr>)))"
  unfolding step_def
  by (subst batchLoop.simps) (simp add: blockedWorld_def world_eval stepTail_def)

theorem step_blocked_mid_batch_witness:
  "step plainEnv rifleRules burstWorld = (PROGRESS_NOT_ENOUGH_MONEY, blockedWorld)
   \<and> getItem (storageItems blockedWorld) itemRifle = 1
   \<and> funds blockedWorld = 50
   \<and> timeSpent (production blockedWorld) = 25
   \<and> step plainEnv rifleRules (burstWorld\<lparr>production := rifleOrder\<lparr>engineers := 35\<rparr>, funds := 150\<rparr>)
       = (PROGRESS_NOT_ENOUGH_MONEY,
          realizeUnits plainEnv rifleRules 2
            (addTimeSpent (burstWorld\<lparr>production := rifleOrder\<lparr>engineers := 35\<rparr>, funds := 150\<rparr>)))
   \<and> getItem (storageItems (realizeUnits plainEnv rifleRules 2
          (addTimeSpent (burstWorld\<lparr>production := rifleOrder\<lparr>engineers := 35\<rparr>, funds := 150\<rparr>))))
        itemRifle = 2
   \<and> fst (step plainEnv rifleRules (blockedWorld\<lparr>funds := 1000\<rparr>)) = PROGRESS_COMPLETE
   \<and> timeSpent (production (snd (step plainEnv rifleRules (blockedWorld\<lparr>funds := 1000\<rparr>)))) = 50
   \<and> getItem (storageItems (snd (step plainEnv rifleRules (blockedWorld\<lparr>funds := 1000\<rparr>))))
        itemRifle = 2"
proof -
  let ?w3 = "burstWorld\<lparr>production := rifleOrder\<lparr>engineers := 35\<rparr>, funds := 150\<rparr>"
  have R1: "realizeUnits plainEnv rifleRules 1 (addTimeSpent burstWorld) = blockedWorld"
    by (simp add: realizeUnits_def blockedWorld_def)
  have unit: "getAmountProduced rifleRules (production burstWorld)
                < getAmountProduced rifleRules (production (addTimeSpent burstWorld))"
    by (simp add: world_eval)
  have n: "0 < (1::nat)"
    "int 1 < producedCount rifleRules (getAmountProduced rifleRules (production burstWorld))
               (addTimeSpent burstWorld)"
    by (simp_all add: world_eval)
  have passed: "\<forall>m. 0 < m \<and> m < (1::nat) \<longrightarrow>
        haveEnoughMoneyForOneMoreUnit rifleRules (realizeUnits plainEnv rifleRules m (addTimeSpent burstWorld))
        \<and> haveEnoughMaterialsForOneMoreUnit rifleRules (realizeUnits plainEnv rifleRules m (addTimeSpent burstWorld))"
    by simp
  have money: "\<not> haveEnoughMoneyForOneMoreUnit rifleRules blockedWorld"
    by (simp add: blockedWorld_def world_eval)
  then have failed: "\<not> (haveEnoughMoneyForOneMoreUnit rifleRules
                          (realizeUnits plainEnv rifleRules 1 (addTimeSpent burstWorld))
        \<and> haveEnoughMaterialsForOneMoreUnit rifleRules
            (realizeUnits plainEnv rifleRules 1 (addTimeSpent burstWorld)))"
    unfolding R1 by simp
  note first = step_blocked_mid_batch [OF unit n passed failed, unfolded R1]
  have a: "step plainEnv rifleRules burstWorld = (PROGRESS_NOT_ENOUGH_MONEY, blockedWorld)"
    using first money by simp
  have b: "timeSpent (production (snd (step plainEnv rifleRules (blockedWorld\<lparr>funds := 1000\<rparr>)))) = 50"
    using first by (simp add: world_eval)
  have unit3: "getAmountProduced rifleRules (production ?w3)
                < getAmountProduced rifleRules (production (addTimeSpent ?w3))"
    by (simp add: world_eval)
  have n3: "0 < (2::nat)"
    "int 2 < producedCount rifleRules (getAmountProduced rifleRules (production ?w3))
               (addTimeSpent ?w3)"
    by (simp_all add: world_eval)
  have passed3: "\<forall>m. 0 < m \<and> m < (2::nat) \<longrightarrow>
        haveEnoughMoneyForOneMoreUnit rifleRules (realizeUnits plainEnv rifleRules m (addTimeSpent ?w3))
        \<and> haveEnoughMaterialsForOneMoreUnit rifleRules (realizeUnits plainEnv rifleRules m (addTimeSpent ?w3))"
  proof (intro allI impI)
    fix m :: nat assume "0 < m \<and> m < 2"
    then have m: "m = Suc 0" by simp
    show "haveEnoughMoneyForOneMoreUnit rifleRules (realizeUnits plainEnv rifleRules m (addTimeSpent ?w3))
        \<and> haveEnoughMaterialsForOneMoreUnit rifleRules (realizeUnits plainEnv rifleRules m (addTimeSpent ?w3))"
      unfolding m by (simp add: realizeUnits_def world_eval)
  qed
  have two: "(2::nat) = Suc (Suc 0)" by simp
  have money3: "\<not> haveEnoughMoneyForOneMoreUnit rifleRules
                    (realizeUnits plainEnv rifleRules 2 (addTimeSpent ?w3))"
    unfolding two by (simp add: realizeUnits_def world_eval)
  then have failed3: "\<not> (haveEnoughMoneyForOneMoreUnit rifleRules
                          (realizeUnits plainEnv rifleRules 2 (addTimeSpent ?w3))
        \<and> haveEnoughMaterialsForOneMoreUnit rifleRules
            (realizeUnits plainEnv rifleRules 2 (addTimeSpent ?w3)))"
    by simp
  have c: "step plainEnv rifleRules ?w3
       = (PROGRESS_NOT_ENOUGH_MONEY, realizeUnits plainEnv rifleRules 2 (addTimeSpent ?w3))"
    using step_blocked_mid_batch [OF unit3 n3 passed3 failed3] money3 by simp
  have d: "getItem (storageItems (realizeUnits plainEnv rifleRules 2 (addTimeSpent ?w3))) itemRifle = 2"
    unfolding two by (simp add: realizeUnits_def world_eval)
  have e: "getItem (storageItems blockedWorld) itemRifle = 1" "funds blockedWorld = 50"
    "timeSpent (production blockedWorld) = 25"
    by (simp_all add: blockedWorld_def world_eval)
  have f: "fst (step plainEnv rifleRules (blockedWorld\<lparr>funds := 1000\<rparr>)) = PROGRESS_COMPLETE"
    "getItem (storageItems (snd (step plainEnv rifleRules (blockedWorld\<lparr>funds := 1000\<rparr>))))
        itemRifle = 2"
    by (simp_all add: blocked_later_step) (simp add: blockedWorld_def world_eval)
  from a b c d e f show ?thesis by blast
qed

lemma capped_step:
  "step plainEnv rifleRules cappedWorld
     = (PROGRESS_COMPLETE, produceUnit plainEnv rifleRules (addTimeSpent cappedWorld))"
  unfolding step_def by (subst batchLoop.simps) (simp add: cappedWorld_def world_eval stepTail_def)

theorem step_batch_capped_witness:
  "fst (step plainEnv rifleRules cappedWorld) = PROGRESS_COMPLETE
   \<and> getItem (storageItems (snd (step plainEnv rifleRules cappedWorld))) itemRifle = 1
   \<and> (\<exists>n. 0 < n
         \<and> getAmountProduced rifleRules (production cappedWorld) + int n
             \<le> amount (production cappedWorld)
         \<and> (snd (step plainEnv rifleRules cappedWorld)
               = realizeUnits plainEnv rifleRules n (addTimeSpent cappedWorld)
            \<or> snd (step plainEnv rifleRules cappedWorld)
               = startItem rifleRules (realizeUnits plainEnv rifleRules n (addTimeSpent cappedWorld))))"
proof -
  have "\<not> infinite (production cappedWorld)"
    and "getAmountProduced rifleRules (production cappedWorld) < amount (production cappedWorld)"
    and "getAmountProduced rifleRules (production cappedWorld)
          < getAmountProduced rifleRules (production (addTimeSpent cappedWorld))"
    by (simp_all add: cappedWorld_def world_eval)
  from step_batch_capped [OF this, of plainEnv]
  show ?thesis by (simp add: capped_step) (simp add: cappedWorld_def world_eval)
qed

text \<open>
  The claim as the spec words it fails for the count \<open>getAmountProduced\<close> reports: a
  bounded order for one rifle with 25 engineers is complete after one call of \<open>step\<close>,
  and reports two completed units.
\<close>

theorem getAmountProduced_exceeds_target:
  "\<not> infinite (production (snd (step plainEnv rifleRules cappedWorld)))
   \<and> amount (production (snd (step plainEnv rifleRules cappedWorld))) = 1
   \<and> getAmountProduced rifleRules (production (snd (step plainEnv rifleRules cappedWorld))) = 2
   \<and> amount (production (snd (step plainEnv rifleRules cappedWorld)))
       < getAmountProduced rifleRules (production (snd (step plainEnv rifleRules cappedWorld)))"
  by (simp add: capped_step) (simp add: cappedWorld_def world_eval)

lemma crowded_loop:
  "batchLoop plainEnv engineerRules 0
     (producedCount engineerRules (getAmountProduced engineerRules (production (crowdedWorld\<lparr>funds := f\<rparr>)))
        (addTimeSpent (crowdedWorld\<lparr>funds := f\<rparr>)))
     (addTimeSpent (crowdedWorld\<lparr>funds := f\<rparr>))
   = (None, produceUnit plainEnv engineerRules (addTimeSpent (crowdedWorld\<lparr>funds := f\<rparr>)))"
  by (subst batchLoop.simps) (simp add: crowdedWorld_def world_eval)

lemma crowdedBurst_loop:
  "batchLoop plainEnv engineerRules 0
     (producedCount engineerRules (getAmountProduced engineerRules (production crowdedBurstWorld))
        (addTimeSpent crowdedBurstWorld))
     (addTimeSpent crowdedBurstWorld)
   = (Some PROGRESS_NOT_ENOUGH_MATERIALS,
      produceUnit plainEnv engineerRules (addTimeSpent crowdedBurstWorld))"
  by (subst batchLoop.simps) (simp add: crowdedBurstWorld_def world_eval)

theorem affordability_check_order_witness:
  "fst (step plainEnv engineerRules (crowdedWorld\<lparr>funds := 50\<rparr>)) = PROGRESS_NOT_ENOUGH_MONEY
   \<and> fst (step plainEnv engineerRules (crowdedWorld\<lparr>funds := 250\<rparr>))
       = PROGRESS_NOT_ENOUGH_LIVING_SPACE
   \<and> fst (step plainEnv engineerRules crowdedBurstWorld) = PROGRESS_NOT_ENOUGH_MATERIALS
   \<and> \<not> haveEnoughLivingSpaceForOneMoreUnit engineerRules
         (snd (step plainEnv engineerRules crowdedBurstWorld))"
proof -
  have u: "getAmountProduced engineerRules (production (crowdedWorld\<lparr>funds := f\<rparr>))
             < getAmountProduced engineerRules (production (addTimeSpent (crowdedWorld\<lparr>funds := f\<rparr>)))"
    for f by (simp add: crowdedWorld_def world_eval)
  have ub: "getAmountProduced engineerRules (production crowdedBurstWorld)
             < getAmountProduced engineerRules (production (addTimeSpent crowdedBurstWorld))"
    by (simp add: crowdedBurstWorld_def world_eval)
  have "fst (step plainEnv engineerRules (crowdedWorld\<lparr>funds := 50\<rparr>)) = PROGRESS_NOT_ENOUGH_MONEY"
    using affordability_check_order [OF u crowded_loop, of 50]
    by (simp add: crowdedWorld_def world_eval)
  moreover have "fst (step plainEnv engineerRules (crowdedWorld\<lparr>funds := 250\<rparr>))
       = PROGRESS_NOT_ENOUGH_LIVING_SPACE"
    using affordability_check_order [OF u crowded_loop, of 250]
    by (simp add: crowdedWorld_def world_eval)
  moreover have "fst (step plainEnv engineerRules crowdedBurstWorld) = PROGRESS_NOT_ENOUGH_MATERIALS"
    using affordability_check_order [OF ub crowdedBurst_loop] by simp
  moreover have "\<not> haveEnoughLivingSpaceForOneMoreUnit engineerRules
         (snd (step plainEnv engineerRules crowdedBurstWorld))"
    using step_unit_completed [OF ub crowdedBurst_loop]
    by (simp add: crowdedBurstWorld_def world_eval)
  ultimately show ?thesis by blast
qed

lemma tallyOf_tallyAdd: "tallyOf (tallyAdd t' q m) t = tallyOf m t + (if t = t' then q else 0)"
  by (simp add: tallyOf_def tallyAdd_def)

lemma qtyOfType_Cons:
  "qtyOfType t ((i, q) # items) = (if getType i = t then q else 0) + qtyOfType t items"
  by (simp add: qtyOfType_def)

lemma qtyOfType_Nil [simp]: "qtyOfType t [] = 0"
  by (simp add: qtyOfType_def)

lemma randomItemSetLoop_tally:
  "tallyOf (randomProductionInfo (production (randomItemSetLoop items w))) t
     = tallyOf (randomProductionInfo (production w)) t + qtyOfType t items"
proof (induction items w rule: randomItemSetLoop.induct)
  case (1 w)
  show ?case by simp
next
  case (2 i q rest w)
  show ?case
    unfolding randomItemSetLoop.simps "2.IH"
    by (auto simp add: Let_def tallyOf_tallyAdd qtyOfType_Cons)
qed

lemma producedItemsLoop_tally:
  "tallyOf (randomProductionInfo (production (producedItemsLoop rules items w))) t
     = tallyOf (randomProductionInfo (production w)) t
       + (if \<not> sell (production w) \<and> getRandomProducedItems rules \<noteq> []
          then qtyOfType t items else 0)"
proof (induction rules items w rule: producedItemsLoop.induct)
  case (1 rules w)
  show ?case by simp
next
  case (2 rules i q rest w)
  show ?case
    unfolding producedItemsLoop.simps "2.IH"
    by (auto simp add: Let_def tallyOf_tallyAdd qtyOfType_Cons)
qed

lemma RNG_generate_rng_only:
  "rng w' = rng w \<Longrightarrow> fst (RNG_generate lo hi w') = fst (RNG_generate lo hi w)"
  by (simp add: RNG_generate_def split: list.splits)

lemma craftsReuseItem_rng [simp]: "rng (craftsReuseItem i w) = rng w"
  by (simp add: craftsReuseItem_def)

lemma producedItemsLoop_rng [simp]: "rng (producedItemsLoop rules items w) = rng w"
  by (induction rules items w rule: producedItemsLoop.induct) (simp_all add: Let_def)

lemma produceCraft_rng [simp]: "rng (produceCraft rc w) = rng w"
  by (simp add: produceCraft_def getId_def split: option.splits)

subsection \<open>The random-output tally\<close>

text \<open>
  C8 (as the code has it). For a recipe with weighted-random outputs, each realized unit
  adds to the tally entry of an item type the quantity of that type it puts into stock
  through the weighted-random branch and, when the recipe produces no craft and the order
  is not liquidating, also the quantity of that type among the recipe's primary produced
  items; starting a unit and advancing the time spent leave the tally as it is.
\<close>

theorem tally_counts_stocked_output:
  "(getRandomProducedItems rules \<noteq> [] \<longrightarrow>
      tallyOf (randomProductionInfo (production (produceUnit env rules w))) t
        = tallyOf (randomProductionInfo (production w)) t
          + qtyOfType t
              (selectedItemSet (getRandomProducedItems rules) 0
                 (fst (RNG_generate 1 (totalWeight (getRandomProducedItems rules)) w)))
          + qtyOfType t
              (if getProducedCraft rules = None \<and> \<not> sell (production w)
               then getProducedItems rules else []))
   \<and> randomProductionInfo (production (startItem rules w)) = randomProductionInfo (production w)
   \<and> randomProductionInfo (production (addTimeSpent w)) = randomProductionInfo (production w)"
proof (intro conjI impI)
  assume r: "getRandomProducedItems rules \<noteq> []"
  let ?w1 = "case getProducedCraft rules of
               Some ruleCraft \<Rightarrow> produceCraft ruleCraft w
             | None \<Rightarrow> producedItemsLoop rules (getProducedItems rules) w"
  have roll: "fst (RNG_generate 1 (totalWeight (getRandomProducedItems rules)) ?w1)
                = fst (RNG_generate 1 (totalWeight (getRandomProducedItems rules)) w)"
    by (rule RNG_generate_rng_only) (simp split: option.splits)
  have primary: "tallyOf (randomProductionInfo (production ?w1)) t
      = tallyOf (randomProductionInfo (production w)) t
        + qtyOfType t (if getProducedCraft rules = None \<and> \<not> sell (production w)
                       then getProducedItems rules else [])"
    using r by (simp add: producedItemsLoop_tally split: option.splits)
  have "tallyOf (randomProductionInfo (production (produceUnit env rules w))) t
      = tallyOf (randomProductionInfo (production (randomManufacture rules ?w1))) t"
    by (simp add: produceUnit_def Let_def)
  also have "\<dots> = tallyOf (randomProductionInfo (production ?w1)) t
      + qtyOfType t
          (selectedItemSet (getRandomProducedItems rules) 0
             (fst (RNG_generate 1 (totalWeight (getRandomProducedItems rules)) ?w1)))"
    using r by (simp add: randomManufacture_eq randomItemSetLoop_tally)
  finally show "tallyOf (randomProductionInfo (production (produceUnit env rules w))) t
        = tallyOf (randomProductionInfo (production w)) t
          + qtyOfType t
              (selectedItemSet (getRandomProducedItems rules) 0
                 (fst (RNG_generate 1 (totalWeight (getRandomProducedItems rules)) w)))
          + qtyOfType t
              (if getProducedCraft rules = None \<and> \<not> sell (production w)
               then getProducedItems rules else [])"
    unfolding roll primary by simp
qed (simp_all add: addTimeSpent_def)

lemma lottery_step:
  "step plainEnv lotteryRules nearlyDoneWorld
     = (PROGRESS_NOT_COMPLETE,
        startItem lotteryRules (produceUnit plainEnv lotteryRules (addTimeSpent nearlyDoneWorld)))"
  unfolding step_def
  by (subst batchLoop.simps) (simp add: lotteryRules_def world_eval stepTail_def RNG_generate_def)

theorem tally_counts_stocked_output_witness:
  "tallyOf (randomProductionInfo (production (produceUnit plainEnv lotteryRules (addTimeSpent nearlyDoneWorld))))
      ''STR_ALIEN_ALLOYS'' = 1
   \<and> tallyOf (randomProductionInfo (production (produceUnit plainEnv lotteryRules (addTimeSpent nearlyDoneWorld))))
      ''STR_LASER_RIFLE'' = 1
   \<and> tallyOf (randomProductionInfo (production (produceUnit plainEnv lotteryRules (addTimeSpent nearlyDoneWorld))))
      ''STR_ELERIUM_115'' = 0"
  using tally_counts_stocked_output [of lotteryRules plainEnv "addTimeSpent nearlyDoneWorld" "''STR_ALIEN_ALLOYS''"]
    tally_counts_stocked_output [of lotteryRules plainEnv "addTimeSpent nearlyDoneWorld" "''STR_LASER_RIFLE''"]
    tally_counts_stocked_output [of lotteryRules plainEnv "addTimeSpent nearlyDoneWorld" "''STR_ELERIUM_115''"]
  by (simp add: lotteryRules_def world_eval RNG_generate_def totalWeight_def qtyOfType_def tallyOf_def)

text \<open>
  The claim as the spec words it (only the weighted-random branch feeds the tally) fails:
  no weighted set of the recipe holds a laser rifle, and after one unit the tally counts
  one, the recipe's primary output.
\<close>

theorem tally_counts_primary_output:
  "randomProductionInfo (production nearlyDoneWorld) ''STR_LASER_RIFLE'' = None
   \<and> randomProductionInfo (production (snd (step plainEnv lotteryRules nearlyDoneWorld)))
        ''STR_LASER_RIFLE'' = Some 1
   \<and> qtyOfType ''STR_LASER_RIFLE'' (concat (map snd (getRandomProducedItems lotteryRules))) = 0"
  by (simp add: lottery_step)
    (simp add: lotteryRules_def world_eval RNG_generate_def totalWeight_def qtyOfType_def
      tallyAdd_def)

subsection \<open>The roulette grants the selected set\<close>


lemma qtyOfItem_Nil [simp]: "qtyOfItem i [] = 0"
  by (simp add: qtyOfItem_def)

lemma craftsReuseItem_storageItems [simp]: "storageItems (craftsReuseItem i w) = storageItems w"
  by (simp add: craftsReuseItem_def)







end
